theory Spec2Isabelle
  imports Complex_Main "HOL-Library.Sublist"
begin

section \<open>JavaScript numbers\<close>

text \<open>
  The placement engine of \<^verbatim>\<open>src/utils.js\<close> computes with JavaScript numbers. A number
  is modelled as \<open>NaN\<close>, one of the two infinities, or a finite value, and a finite value
  is the rational it denotes: the arithmetic of the model is exact. It coincides with the
  program's arithmetic on every computation whose intermediate results are representable
  (integers below \<open>2^53\<close>, their halves, ...); rounding and overflow to an infinity are not
  modelled, and neither is the sign of zero, which no operation of this module observes.
\<close>

datatype jsnum = NaN | PosInf | NegInf | Fin rat

fun num_neg :: "jsnum \<Rightarrow> jsnum" where
  "num_neg NaN = NaN"
| "num_neg PosInf = NegInf"
| "num_neg NegInf = PosInf"
| "num_neg (Fin a) = Fin (- a)"

fun num_add :: "jsnum \<Rightarrow> jsnum \<Rightarrow> jsnum" where
  "num_add NaN _ = NaN"
| "num_add _ NaN = NaN"
| "num_add PosInf NegInf = NaN"
| "num_add NegInf PosInf = NaN"
| "num_add PosInf _ = PosInf"
| "num_add _ PosInf = PosInf"
| "num_add NegInf _ = NegInf"
| "num_add _ NegInf = NegInf"
| "num_add (Fin a) (Fin b) = Fin (a + b)"

definition num_sub :: "jsnum \<Rightarrow> jsnum \<Rightarrow> jsnum" where
  "num_sub a b = num_add a (num_neg b)"

fun num_sgn :: "jsnum \<Rightarrow> rat" where
  "num_sgn NaN = 0"
| "num_sgn PosInf = 1"
| "num_sgn NegInf = - 1"
| "num_sgn (Fin a) = sgn a"

fun num_mul :: "jsnum \<Rightarrow> jsnum \<Rightarrow> jsnum" where
  "num_mul NaN _ = NaN"
| "num_mul _ NaN = NaN"
| "num_mul (Fin a) (Fin b) = Fin (a * b)"
| "num_mul a b =
     (if num_sgn a * num_sgn b = 0 then NaN
      else if 0 < num_sgn a * num_sgn b then PosInf else NegInf)"

text \<open>The relational comparison \<open>a < b\<close> of two numbers: false as soon as one is \<open>NaN\<close>.\<close>

fun num_lt :: "jsnum \<Rightarrow> jsnum \<Rightarrow> bool" where
  "num_lt NaN _ = False"
| "num_lt _ NaN = False"
| "num_lt _ NegInf = False"
| "num_lt PosInf _ = False"
| "num_lt NegInf _ = True"
| "num_lt _ PosInf = True"
| "num_lt (Fin a) (Fin b) = (a < b)"

text \<open>\<^verbatim>\<open>Math.max\<close> and \<^verbatim>\<open>Math.min\<close> of two numbers: \<open>NaN\<close> as soon as one is \<open>NaN\<close>.\<close>

definition num_max :: "jsnum \<Rightarrow> jsnum \<Rightarrow> jsnum" where
  "num_max a b = (if a = NaN \<or> b = NaN then NaN else if num_lt a b then b else a)"

definition num_min :: "jsnum \<Rightarrow> jsnum \<Rightarrow> jsnum" where
  "num_min a b = (if a = NaN \<or> b = NaN then NaN else if num_lt b a then b else a)"

text \<open>A number is truthy unless it is zero or \<open>NaN\<close>.\<close>

fun num_truthy :: "jsnum \<Rightarrow> bool" where
  "num_truthy NaN = False"
| "num_truthy (Fin a) = (a \<noteq> 0)"
| "num_truthy _ = True"

section \<open>JavaScript strings\<close>

text \<open>
  A string is a list of code units; the model has the code units below 256. The functions
  of this section are the library functions the module calls: the conversion of a number
  to a string (template literals), \<^verbatim>\<open>parseFloat\<close>, the conversion of a string to a number,
  \<^verbatim>\<open>String.prototype.replace\<close> with a string pattern, \<^verbatim>\<open>split\<close> and \<^verbatim>\<open>trim\<close>.
\<close>

definition digit_char :: "int \<Rightarrow> char" where
  "digit_char d = ''0123456789'' ! nat d"

function digits :: "int \<Rightarrow> string" where
  "digits n = (if n < 10 then [digit_char n] else digits (n div 10) @ [digit_char (n mod 10)])"
  by pat_completeness auto
termination
  by (relation "measure nat") auto

text \<open>
  The number of fractional decimal digits of a positive rational \<open>a / b\<close> in lowest terms:
  the least \<open>j\<close> such that \<open>b\<close> divides \<open>10^j\<close>, found by dividing the factors 2 and 5 out
  of \<open>b\<close>. Every finite double has one; for a rational that has none (it is the value of
  no double) the expansion is cut after 20 digits.
\<close>

function strip_factor :: "int \<Rightarrow> int \<Rightarrow> nat \<times> int" where
  "strip_factor p b =
     (if 1 < p \<and> 0 < b \<and> b mod p = 0
      then (let (c, b') = strip_factor p (b div p) in (Suc c, b'))
      else (0, b))"
  by pat_completeness auto
termination
  by (relation "measure (\<lambda>(p, b). nat b)") (auto simp: pos_imp_zdiv_pos_iff zdiv_mono2 intro!: int_div_less_self)

definition frac_len :: "rat \<Rightarrow> nat" where
  "frac_len r =
     (let (twos, b2) = strip_factor 2 (snd (quotient_of r));
          (fives, b5) = strip_factor 5 b2
      in if b5 = 1 then max twos fives else 20)"

text \<open>
  \<^verbatim>\<open>Number.prototype.toString\<close> on a positive finite number with decimal digits \<open>ds\<close>
  (no trailing zero, \<open>k\<close> of them) and decimal point after \<open>n\<close> digits.
\<close>

definition format_digits :: "string \<Rightarrow> int \<Rightarrow> string" where
  "format_digits ds n =
     (let k = int (length ds)
      in if k \<le> n \<and> n \<le> 21 then ds @ replicate (nat (n - k)) CHR ''0''
         else if 0 < n \<and> n \<le> 21 then take (nat n) ds @ ''.'' @ drop (nat n) ds
         else if - 6 < n \<and> n \<le> 0 then ''0.'' @ replicate (nat (- n)) CHR ''0'' @ ds
         else let e = n - 1;
                  es = (if e < 0 then ''-'' else ''+'') @ digits \<bar>e\<bar>
              in if k = 1 then ds @ ''e'' @ es
                 else [hd ds] @ ''.'' @ tl ds @ ''e'' @ es)"

definition pos_to_string :: "rat \<Rightarrow> string" where
  "pos_to_string r =
     (let j = frac_len r;
          ds = digits \<lfloor>r * 10 ^ j\<rfloor>;
          sig = rev (dropWhile (\<lambda>c. c = CHR ''0'') (rev ds))
      in format_digits sig (int (length ds) - int j))"

fun num_to_string :: "jsnum \<Rightarrow> string" where
  "num_to_string NaN = ''NaN''"
| "num_to_string PosInf = ''Infinity''"
| "num_to_string NegInf = ''-Infinity''"
| "num_to_string (Fin r) =
     (if r = 0 then ''0'' else if r < 0 then ''-'' @ pos_to_string (- r) else pos_to_string r)"

text \<open>White space and decimal digits, by code unit.\<close>

definition is_space :: "char \<Rightarrow> bool" where
  "is_space c = ((of_char c :: nat) \<in> set [9, 10, 11, 12, 13, 32, 160])"

definition is_digit :: "char \<Rightarrow> bool" where
  "is_digit c = (48 \<le> (of_char c :: nat) \<and> (of_char c :: nat) \<le> 57)"

definition digit_val :: "char \<Rightarrow> int" where
  "digit_val c = of_char c - 48"

definition digits_val :: "string \<Rightarrow> int" where
  "digits_val ds = foldl (\<lambda>a c. 10 * a + digit_val c) 0 ds"

definition pow10 :: "int \<Rightarrow> rat" where
  "pow10 e = (if 0 \<le> e then 10 ^ nat e else 1 / 10 ^ nat (- e))"

text \<open>
  The longest prefix of a string that is an unsigned decimal literal
  (\<^verbatim>\<open>Infinity\<close>, \<^verbatim>\<open>12\<close>, \<^verbatim>\<open>12.\<close>, \<^verbatim>\<open>12.5\<close>, \<^verbatim>\<open>.5\<close>, each but the first with an optional exponent), as
  its value and the rest of the string; \<open>None\<close> when no prefix is one. An exponent
  mark is read only when digits follow it.
\<close>

definition parse_exponent :: "string \<Rightarrow> int \<times> string" where
  "parse_exponent s =
     (case s of
        [] \<Rightarrow> (0, s)
      | c # r \<Rightarrow>
          if c = CHR ''e'' \<or> c = CHR ''E'' then
            (let (sg, r') =
                   (case r of
                      [] \<Rightarrow> (1, r)
                    | d # r2 \<Rightarrow>
                        if d = CHR ''+'' then (1, r2)
                        else if d = CHR ''-'' then (- 1, r2) else (1, r));
                 ds = takeWhile is_digit r'
             in if ds = [] then (0, s) else (sg * digits_val ds, dropWhile is_digit r'))
          else (0, s))"

definition parse_unsigned :: "string \<Rightarrow> (jsnum \<times> string) option" where
  "parse_unsigned s =
     (if prefix ''Infinity'' s then Some (PosInf, drop 8 s)
      else
        let ip = takeWhile is_digit s;
            r1 = dropWhile is_digit s;
            (fp, r2) =
              (case r1 of
                 [] \<Rightarrow> ([], r1)
               | c # r \<Rightarrow>
                   if c = CHR ''.'' \<and> (ip \<noteq> [] \<or> takeWhile is_digit r \<noteq> [])
                   then (takeWhile is_digit r, dropWhile is_digit r) else ([], r1))
        in if ip = [] \<and> fp = [] then None
           else
             let (e, r3) = parse_exponent r2;
                 m = of_int (digits_val (ip @ fp)) / 10 ^ length fp
             in Some (Fin (m * pow10 e), r3))"

definition parse_decimal :: "string \<Rightarrow> (jsnum \<times> string) option" where
  "parse_decimal s =
     (case s of
        [] \<Rightarrow> None
      | c # r \<Rightarrow>
          if c = CHR ''+'' then parse_unsigned r
          else if c = CHR ''-'' then map_option (\<lambda>(v, t). (num_neg v, t)) (parse_unsigned r)
          else parse_unsigned s)"

text \<open>\<^verbatim>\<open>parseFloat\<close>: leading white space is skipped, what follows the literal is ignored.\<close>

definition parseFloat :: "string \<Rightarrow> jsnum" where
  "parseFloat s = (case parse_decimal (dropWhile is_space s) of Some (v, _) \<Rightarrow> v | None \<Rightarrow> NaN)"

definition trim :: "string \<Rightarrow> string" where
  "trim s = rev (dropWhile is_space (rev (dropWhile is_space s)))"

text \<open>
  The conversion of a string to a number (as \<^verbatim>\<open>-\<close>, \<^verbatim>\<open>*\<close>, \<^verbatim>\<open><\<close> and \<^verbatim>\<open>Math.max\<close> apply it):
  the trimmed string is empty (zero), a hexadecimal, octal or binary literal, or a decimal
  literal, and is \<open>NaN\<close> otherwise.
\<close>

definition radix_digit :: "char \<Rightarrow> int option" where
  "radix_digit c =
     (let n = (of_char c :: nat)
      in if 48 \<le> n \<and> n \<le> 57 then Some (int n - 48)
         else if 97 \<le> n \<and> n \<le> 102 then Some (int n - 87)
         else if 65 \<le> n \<and> n \<le> 70 then Some (int n - 55)
         else None)"

definition radix_value :: "int \<Rightarrow> string \<Rightarrow> jsnum" where
  "radix_value b ds =
     (if ds \<noteq> [] \<and> list_all (\<lambda>c. case radix_digit c of Some d \<Rightarrow> d < b | None \<Rightarrow> False) ds
      then Fin (of_int (foldl (\<lambda>a c. b * a + the (radix_digit c)) 0 ds))
      else NaN)"

definition string_to_number :: "string \<Rightarrow> jsnum" where
  "string_to_number s =
     (let t = trim s
      in if t = [] then Fin 0
         else if prefix ''0x'' t \<or> prefix ''0X'' t then radix_value 16 (drop 2 t)
         else if prefix ''0o'' t \<or> prefix ''0O'' t then radix_value 8 (drop 2 t)
         else if prefix ''0b'' t \<or> prefix ''0B'' t then radix_value 2 (drop 2 t)
         else (case parse_decimal t of Some (v, []) \<Rightarrow> v | _ \<Rightarrow> NaN))"

text \<open>
  \<^verbatim>\<open>s.replace(pat, rep)\<close> with a string pattern replaces the first occurrence of \<open>pat\<close>
  (the module's replacement is the empty string, which holds no \<^verbatim>\<open>$\<close> pattern);
  \<^verbatim>\<open>s.split(sep)\<close> with a one-character separator.
\<close>

fun str_replace :: "string \<Rightarrow> string \<Rightarrow> string \<Rightarrow> string" where
  "str_replace pat rep [] = (if pat = [] then rep else [])"
| "str_replace pat rep (c # s) =
     (if prefix pat (c # s) then rep @ drop (length pat) (c # s)
      else c # str_replace pat rep s)"

fun str_split :: "char \<Rightarrow> string \<Rightarrow> string list" where
  "str_split sep [] = [[]]"
| "str_split sep (c # s) =
     (if c = sep then [] # str_split sep s
      else (case str_split sep s of [] \<Rightarrow> [[c]] | x # xs \<Rightarrow> (c # x) # xs))"

text \<open>The relational comparison of two strings: lexicographic, by code unit.\<close>

fun str_lt :: "string \<Rightarrow> string \<Rightarrow> bool" where
  "str_lt _ [] = False"
| "str_lt [] (_ # _) = True"
| "str_lt (a # s) (b # t) =
     ((of_char a :: nat) < of_char b \<or> (a = b \<and> str_lt s t))"

section \<open>Values, objects and the host environment\<close>

text \<open>
  The values stored in the fields of the module's objects are primitive. \<open>typeof\<close>,
  truthiness and the operators \<^verbatim>\<open>+ - * < ||\<close>, \<^verbatim>\<open>Math.max\<close> and \<^verbatim>\<open>Math.min\<close> follow the
  language: \<^verbatim>\<open>+\<close> concatenates as soon as one operand is a string, the others convert
  both operands to numbers (\<^verbatim>\<open><\<close> compares two strings as strings).
\<close>

datatype prim = VUndefined | VNull | VBool bool | VNum jsnum | VStr string

fun typeof :: "prim \<Rightarrow> string" where
  "typeof VUndefined = ''undefined''"
| "typeof VNull = ''object''"
| "typeof (VBool _) = ''boolean''"
| "typeof (VNum _) = ''number''"
| "typeof (VStr _) = ''string''"

fun truthy :: "prim \<Rightarrow> bool" where
  "truthy VUndefined = False"
| "truthy VNull = False"
| "truthy (VBool b) = b"
| "truthy (VNum n) = num_truthy n"
| "truthy (VStr s) = (s \<noteq> [])"

fun to_number :: "prim \<Rightarrow> jsnum" where
  "to_number VUndefined = NaN"
| "to_number VNull = Fin 0"
| "to_number (VBool b) = (if b then Fin 1 else Fin 0)"
| "to_number (VNum n) = n"
| "to_number (VStr s) = string_to_number s"

fun to_string :: "prim \<Rightarrow> string" where
  "to_string VUndefined = ''undefined''"
| "to_string VNull = ''null''"
| "to_string (VBool b) = (if b then ''true'' else ''false'')"
| "to_string (VNum n) = num_to_string n"
| "to_string (VStr s) = s"

definition js_add :: "prim \<Rightarrow> prim \<Rightarrow> prim" where
  "js_add a b =
     (if typeof a = ''string'' \<or> typeof b = ''string'' then VStr (to_string a @ to_string b)
      else VNum (num_add (to_number a) (to_number b)))"

definition js_sub :: "prim \<Rightarrow> prim \<Rightarrow> prim" where
  "js_sub a b = VNum (num_sub (to_number a) (to_number b))"

definition js_mul :: "prim \<Rightarrow> prim \<Rightarrow> prim" where
  "js_mul a b = VNum (num_mul (to_number a) (to_number b))"

definition js_lt :: "prim \<Rightarrow> prim \<Rightarrow> bool" where
  "js_lt a b =
     (case (a, b) of
        (VStr s, VStr t) \<Rightarrow> str_lt s t
      | _ \<Rightarrow> num_lt (to_number a) (to_number b))"

definition Math_max :: "prim \<Rightarrow> prim \<Rightarrow> prim" where
  "Math_max a b = VNum (num_max (to_number a) (to_number b))"

definition Math_min :: "prim \<Rightarrow> prim \<Rightarrow> prim" where
  "Math_min a b = VNum (num_min (to_number a) (to_number b))"

definition num_or :: "jsnum \<Rightarrow> jsnum \<Rightarrow> jsnum" where
  "num_or a b = (if num_truthy a then a else b)"

text \<open>
  A plain object is the list of its properties in insertion order. Reading an absent
  property gives \<open>undefined\<close>; an assignment updates the property in place or appends it.
\<close>

type_synonym obj = "(string \<times> prim) list"

definition get :: "obj \<Rightarrow> string \<Rightarrow> prim" where
  "get ob k = (case map_of ob k of None \<Rightarrow> VUndefined | Some v \<Rightarrow> v)"

fun put :: "obj \<Rightarrow> string \<Rightarrow> prim \<Rightarrow> obj" where
  "put [] k v = [(k, v)]"
| "put ((k', v') # ps) k v = (if k' = k then (k, v) # ps else (k', v') # put ps k v)"

text \<open>
  A DOM element is what the module reads of it: the rectangle that
  \<^verbatim>\<open>getBoundingClientRect()\<close> returns and its scroll and client offsets. The values the
  module receives are primitives, DOM elements (the values that \<^verbatim>\<open>isDOM\<close> of the
  \<^verbatim>\<open>is-dom\<close> package accepts) and plain objects.
\<close>

record domrect =
  rect_top :: jsnum
  rect_left :: jsnum
  rect_right :: jsnum
  rect_bottom :: jsnum
  rect_width :: jsnum
  rect_height :: jsnum

record element =
  bounding :: domrect
  scrollTop :: jsnum
  scrollLeft :: jsnum
  clientTop :: jsnum
  clientLeft :: jsnum

datatype jsval = Prim prim | Dom element | Obj obj

fun val_truthy :: "jsval \<Rightarrow> bool" where
  "val_truthy (Prim p) = truthy p"
| "val_truthy (Dom _) = True"
| "val_truthy (Obj _) = True"

fun val_typeof :: "jsval \<Rightarrow> string" where
  "val_typeof (Prim p) = typeof p"
| "val_typeof (Dom _) = ''object''"
| "val_typeof (Obj _) = ''object''"

text \<open>
  The host: \<^verbatim>\<open>window\<close> (page offsets, inner dimensions) and \<^verbatim>\<open>document\<close> (the root
  element, \<^verbatim>\<open>document.body\<close> and its parent node, the lookup of an element by id, which
  gives \<open>null\<close> when there is none).
\<close>

record env =
  pageYOffset :: jsnum
  pageXOffset :: jsnum
  innerHeight :: jsnum
  innerWidth :: jsnum
  documentElement :: element
  body_parentNode :: element
  body :: element
  getElementById :: "string \<Rightarrow> element option"

text \<open>
  The only exception the module can raise is the \<^verbatim>\<open>TypeError\<close> of the language: a
  property read on \<open>undefined\<close> or \<open>null\<close>, a call of a method the value does not have,
  the spreading of a value that is not iterable.
\<close>

datatype error = TypeError

definition and_then :: "error + 'a \<Rightarrow> ('a \<Rightarrow> error + 'b) \<Rightarrow> error + 'b" where
  "and_then r f = (case r of Inl e \<Rightarrow> Inl e | Inr v \<Rightarrow> f v)"

text \<open>\<^verbatim>\<open>v.k\<close> for a property \<open>k\<close> that primitives and DOM elements do not have.\<close>

fun member :: "jsval \<Rightarrow> string \<Rightarrow> error + prim" where
  "member (Prim VUndefined) k = Inl TypeError"
| "member (Prim VNull) k = Inl TypeError"
| "member (Prim _) k = Inr VUndefined"
| "member (Dom _) k = Inr VUndefined"
| "member (Obj ob) k = Inr (get ob k)"

text \<open>\<^verbatim>\<open>el.getBoundingClientRect()\<close>, as an object.\<close>

definition rect_obj :: "domrect \<Rightarrow> obj" where
  "rect_obj r =
     [(''top'', VNum (rect_top r)), (''left'', VNum (rect_left r)),
      (''right'', VNum (rect_right r)), (''bottom'', VNum (rect_bottom r)),
      (''width'', VNum (rect_width r)), (''height'', VNum (rect_height r))]"

fun getBoundingClientRect :: "jsval \<Rightarrow> error + obj" where
  "getBoundingClientRect (Dom e) = Inr (rect_obj (bounding e))"
| "getBoundingClientRect _ = Inl TypeError"

section \<open>The placement engine\<close>

text \<open>\<^verbatim>\<open>dimension(el)\<close>: the width and height of the element's bounding rectangle.\<close>

definition dimension :: "jsval \<Rightarrow> error + obj" where
  "dimension el =
     and_then (getBoundingClientRect el) (\<lambda>rect.
       Inr [(''width'', get rect ''width''), (''height'', get rect ''height'')])"

text \<open>
  \<^verbatim>\<open>position(el)\<close>: the bounding rectangle moved by the page offset. A falsy \<open>el\<close> is
  replaced by the empty object \<^verbatim>\<open>{}\<close>, whose fields all read \<open>undefined\<close>.
\<close>

definition position :: "env \<Rightarrow> jsval \<Rightarrow> error + obj" where
  "position env el =
     and_then (if val_truthy el then getBoundingClientRect el else Inr []) (\<lambda>pos.
       let winTop = num_sub (num_or (pageYOffset env) (scrollTop (documentElement env)))
                      (clientTop (documentElement env));
           winLeft = num_sub (num_or (pageXOffset env) (scrollLeft (documentElement env)))
                       (clientLeft (documentElement env))
       in Inr [(''top'', js_add (get pos ''top'') (VNum winTop)),
               (''left'', js_add (get pos ''left'') (VNum winLeft)),
               (''right'', js_add (get pos ''right'') (VNum winLeft)),
               (''bottom'', js_add (get pos ''bottom'') (VNum winTop)),
               (''width'', get pos ''width''),
               (''height'', get pos ''height'')])"

text \<open>A template literal \<^verbatim>\<open>`${v}px`\<close>.\<close>

definition px :: "prim \<Rightarrow> prim" where
  "px v = VStr (to_string v @ ''px'')"

text \<open>
  \<^verbatim>\<open>placement(place, content, origin)\<close>. The default rectangle is read from the fields
  \<open>x\<close> and \<open>y\<close> of the origin before the kind of origin is looked at, so an origin that is
  \<open>undefined\<close> or \<open>null\<close> raises; a DOM element is measured, a string is looked up by id
  and the element (or \<open>null\<close>) measured. The two \<^verbatim>\<open>switch\<close> statements set the cross axis,
  then the main axis; a \<open>place\<close> that is none of the four directions sets nothing.
\<close>

definition gap :: prim where
  "gap = VNum (Fin 12)"

definition half :: prim where
  "half = VNum (Fin (1 / 2))"

definition placement :: "env \<Rightarrow> string \<Rightarrow> jsval \<Rightarrow> jsval \<Rightarrow> error + obj" where
  "placement env place content origin =
     and_then (dimension content) (\<lambda>dim.
     and_then (member origin ''y'') (\<lambda>oy.
     and_then (member origin ''x'') (\<lambda>ox.
     and_then
       (case origin of
          Dom e \<Rightarrow> position env origin
        | Prim (VStr ident) \<Rightarrow>
            position env (case getElementById env ident of None \<Rightarrow> Prim VNull | Some e \<Rightarrow> Dom e)
        | _ \<Rightarrow>
            Inr [(''top'', oy), (''right'', ox), (''bottom'', oy), (''left'', ox),
                 (''width'', VNum (Fin 0)), (''height'', VNum (Fin 0))]) (\<lambda>pos.
       let offset = [(''width'', get dim ''width''), (''height'', get dim ''height'')];
           offset =
             (if place = ''top'' \<or> place = ''bottom'' then
                put offset ''left''
                  (px (js_sub (js_add (get pos ''left'') (js_mul (get pos ''width'') half))
                         (js_mul (get dim ''width'') half)))
              else if place = ''left'' \<or> place = ''right'' then
                put offset ''top''
                  (px (js_sub (js_add (get pos ''top'') (js_mul (get pos ''height'') half))
                         (js_mul (get dim ''height'') half)))
              else offset);
           offset =
             (if place = ''top'' then
                put offset ''top'' (px (js_sub (js_sub (get pos ''top'') (get dim ''height'')) gap))
              else if place = ''right'' then
                put offset ''left'' (px (js_add (get pos ''right'') gap))
              else if place = ''bottom'' then
                put offset ''top'' (px (js_add (js_add (get pos ''top'') (get pos ''height'')) gap))
              else if place = ''left'' then
                put offset ''left'' (px (js_sub (js_sub (get pos ''left'') (get dim ''width'')) gap))
              else offset)
       in Inr offset))))"

text \<open>
  \<^verbatim>\<open>complete(dir)\<close>. The argument is a string, an array of strings, or absent; spreading
  an absent argument raises, and spreading a string gives its characters.
\<close>

definition DIRS :: "string list" where
  "DIRS = [''top'', ''right'', ''bottom'', ''left'']"

datatype place_arg = PStr string | PArr "string list" | PUndefined

definition spread :: "place_arg \<Rightarrow> error + string list" where
  "spread dir =
     (case dir of
        PArr l \<Rightarrow> Inr l
      | PStr s \<Rightarrow> Inr (map (\<lambda>c. [c]) s)
      | PUndefined \<Rightarrow> Inl TypeError)"

definition complete_dirs :: "place_arg \<Rightarrow> error + string list" where
  "complete_dirs dir =
     and_then (case dir of PStr s \<Rightarrow> Inr [s] | _ \<Rightarrow> spread dir) (\<lambda>dir.
       let missings = filter (\<lambda>d. d \<notin> set dir) DIRS
       in Inr (dir @ missings))"

text \<open>\<^verbatim>\<open>intersection(area1, area2)\<close>.\<close>

definition intersection :: "obj \<Rightarrow> obj \<Rightarrow> obj" where
  "intersection area1 area2 =
     (let area = [];
          area = put area ''top'' (Math_max (get area1 ''top'') (get area2 ''top''));
          area = put area ''right''
                   (Math_min (js_add (get area1 ''left'') (get area1 ''width''))
                      (js_add (get area2 ''left'') (get area2 ''width'')));
          area = put area ''bottom''
                   (Math_min (js_add (get area1 ''top'') (get area1 ''height''))
                      (js_add (get area2 ''top'') (get area2 ''height'')));
          area = put area ''left'' (Math_max (get area1 ''left'') (get area2 ''left''));
          area = put area ''height'' (js_sub (get area ''bottom'') (get area ''top''));
          area = put area ''width'' (js_sub (get area ''right'') (get area ''left''))
      in area)"

text \<open>
  \<^verbatim>\<open>scrollOffset()\<close>: the first truthy scroll offset of the root element, the parent of
  the body and the body (\<^verbatim>\<open>reduce\<close> with \<^verbatim>\<open>||\<close>, from the left), else the last one.
  \<^verbatim>\<open>contentArea()\<close> adds the inner dimensions of the window.
\<close>

definition scrollOffset :: "env \<Rightarrow> obj" where
  "scrollOffset env =
     (let list = [documentElement env, body_parentNode env, body env]
      in [(''top'', VNum (foldl num_or (hd (map scrollTop list)) (tl (map scrollTop list)))),
          (''left'', VNum (foldl num_or (hd (map scrollLeft list)) (tl (map scrollLeft list))))])"

definition contentArea :: "env \<Rightarrow> obj" where
  "contentArea env =
     put (put (scrollOffset env) ''height'' (VNum (innerHeight env)))
       ''width'' (VNum (innerWidth env))"

text \<open>\<^verbatim>\<open>strip(obj)\<close>: every string among the six fields loses its first \<^verbatim>\<open>px\<close> and is parsed.\<close>

definition STRIP_FOR :: "string list" where
  "STRIP_FOR = [''top'', ''left'', ''right'', ''bottom'', ''width'', ''height'']"

definition strip_prop :: "obj \<Rightarrow> string \<Rightarrow> obj" where
  "strip_prop data prop =
     (case get data prop of
        VStr s \<Rightarrow> put data prop (VNum (parseFloat (str_replace ''px'' '''' s)))
      | _ \<Rightarrow> data)"

definition strip :: "obj \<Rightarrow> obj" where
  "strip ob = foldl strip_prop ob STRIP_FOR"

text \<open>\<^verbatim>\<open>amend(area)\<close>.\<close>

definition amend :: "obj \<Rightarrow> obj" where
  "amend area =
     (let data = strip area;
          data = (if typeof (get data ''top'') \<noteq> ''number''
                  then put data ''top'' (VNum (Fin 0)) else data);
          data = (if typeof (get data ''left'') \<noteq> ''number''
                  then put data ''left'' (VNum (Fin 0)) else data);
          data = (if typeof (get data ''right'') \<noteq> ''number''
                     \<and> typeof (get data ''width'') = ''number''
                  then put data ''right'' (js_add (get data ''left'') (get data ''width''))
                  else data);
          data = (if typeof (get data ''bottom'') \<noteq> ''number''
                     \<and> typeof (get data ''height'') = ''number''
                  then put data ''bottom'' (js_add (get data ''top'') (get data ''height''))
                  else data)
      in data)"

text \<open>
  \<^verbatim>\<open>overDirs(tip, el)\<close>. A container that is a plain object has no bounding rectangle,
  and measuring it raises.
\<close>

definition overDirs :: "env \<Rightarrow> obj \<Rightarrow> jsval \<Rightarrow> error + string list" where
  "overDirs env tip el =
     (let tip = amend tip;
          area = amend (contentArea env)
      in and_then
           (if val_truthy el \<and> val_typeof el = ''object''
            then and_then (position env el) (\<lambda>p. Inr (intersection area p))
            else Inr area) (\<lambda>area.
         let dirs = [];
             dirs = (if js_lt (get tip ''top'') (get area ''top'') then dirs @ [''top''] else dirs);
             dirs = (if js_lt (get area ''right'') (get tip ''right'') then dirs @ [''right''] else dirs);
             dirs = (if js_lt (get area ''bottom'') (get tip ''bottom'') then dirs @ [''bottom''] else dirs);
             dirs = (if js_lt (get tip ''left'') (get area ''left'') then dirs @ [''left''] else dirs)
         in Inr dirs))"

text \<open>
  The props of the tooltip component: \<open>place\<close> (a string, an array of strings or absent),
  \<open>auto\<close>, \<open>within\<close> (absent, or a function of no argument, which the module calls once
  per attempt), \<open>origin\<close> and the legacy \<open>el\<close>.
\<close>

record props =
  prop_place :: place_arg
  prop_auto :: prim
  prop_within :: "(unit \<Rightarrow> jsval) option"
  prop_origin :: jsval
  prop_el :: jsval

record result =
  offset :: obj
  place :: string

text \<open>\<^verbatim>\<open>originOrEl(props)\<close> is \<^verbatim>\<open>props.origin || props.el\<close>.\<close>

definition originOrEl :: "props \<Rightarrow> jsval" where
  "originOrEl p = (if val_truthy (prop_origin p) then prop_origin p else prop_el p)"

text \<open>
  The loop of \<^verbatim>\<open>adjust\<close> over \<open>tries\<close>, with the variable \<open>first\<close> (\<open>None\<close> while it is
  \<open>undefined\<close>); the container is \<^verbatim>\<open>within && within()\<close>. When the list is exhausted the
  loop returns \<open>first\<close>, which is \<open>undefined\<close> if nothing was tried.
\<close>

definition container :: "(unit \<Rightarrow> jsval) option \<Rightarrow> jsval" where
  "container withinf = (case withinf of None \<Rightarrow> Prim VUndefined | Some f \<Rightarrow> f ())"

fun adjust_loop ::
  "env \<Rightarrow> jsval \<Rightarrow> jsval \<Rightarrow> (unit \<Rightarrow> jsval) option \<Rightarrow> result option \<Rightarrow> string list
     \<Rightarrow> error + result option" where
  "adjust_loop env content origin withinf first [] = Inr first"
| "adjust_loop env content origin withinf first (current # tries) =
     and_then (placement env current content origin) (\<lambda>pos.
       let first = (case first of
                      None \<Rightarrow> Some \<lparr>offset = pos, place = current\<rparr>
                    | Some f \<Rightarrow> Some f)
       in and_then (overDirs env pos (container withinf)) (\<lambda>dirs.
            if length dirs = 0 then Inr (Some \<lparr>offset = pos, place = current\<rparr>)
            else adjust_loop env content origin withinf first tries))"

text \<open>
  \<^verbatim>\<open>adjust(content, props)\<close>: a string \<open>place\<close> is split at the commas and each part
  trimmed; with \<open>auto\<close> the list is completed; the list is copied and tried in order.
\<close>

definition adjust :: "env \<Rightarrow> jsval \<Rightarrow> props \<Rightarrow> error + result option" where
  "adjust env content props =
     (let origin = originOrEl props;
          place = (case prop_place props of
                     PStr s \<Rightarrow> PArr (map trim (str_split CHR '','' s))
                   | p \<Rightarrow> p)
      in and_then (if truthy (prop_auto props) then map_sum id PArr (complete_dirs place)
                   else Inr place) (\<lambda>place.
         and_then (spread place) (\<lambda>tries.
           adjust_loop env content origin (prop_within props) None tries)))"
section \<open>Notions used to state the properties\<close>

text \<open>
  A plain rectangle with finite numeric \<open>top\<close>, \<open>left\<close>, \<open>width\<close> and \<open>height\<close>, and the
  test that a value is a finite number.
\<close>

definition rect :: "rat \<Rightarrow> rat \<Rightarrow> rat \<Rightarrow> rat \<Rightarrow> obj" where
  "rect t l w h =
     [(''top'', VNum (Fin t)), (''left'', VNum (Fin l)),
      (''width'', VNum (Fin w)), (''height'', VNum (Fin h))]"




text \<open>
  The rectangle that \<open>placement\<close> resolves an origin to: the position of a DOM element,
  the position of the element with that id (of \<open>null\<close> when there is none), and for every
  other value the point read from its fields \<open>x\<close> and \<open>y\<close>, with no extent.
\<close>

definition resolve_origin :: "env \<Rightarrow> jsval \<Rightarrow> error + obj" where
  "resolve_origin env origin =
     (case origin of
        Dom e \<Rightarrow> position env origin
      | Prim (VStr ident) \<Rightarrow>
          position env (case getElementById env ident of None \<Rightarrow> Prim VNull | Some e \<Rightarrow> Dom e)
      | _ \<Rightarrow>
          and_then (member origin ''y'') (\<lambda>oy.
          and_then (member origin ''x'') (\<lambda>ox.
            Inr [(''top'', oy), (''right'', ox), (''bottom'', oy), (''left'', ox),
                 (''width'', VNum (Fin 0)), (''height'', VNum (Fin 0))])))"

text \<open>
  The reference area of the overflow check: the amended content area (the viewport) when
  the container is a primitive value (absent, in particular), its intersection with the
  position of the container when the container is a DOM element.
\<close>

definition reference_area :: "env \<Rightarrow> jsval \<Rightarrow> error + obj" where
  "reference_area env el =
     (case el of
        Prim _ \<Rightarrow> Inr (amend (contentArea env))
      | Dom e \<Rightarrow> and_then (position env el) (\<lambda>p. Inr (intersection (amend (contentArea env)) p))
      | Obj _ \<Rightarrow> Inl TypeError)"

text \<open>The tip exceeds the area along a direction: strictly beyond the edge of that name.\<close>

definition exceeds :: "obj \<Rightarrow> obj \<Rightarrow> string \<Rightarrow> bool" where
  "exceeds tip area d =
     (if d = ''top'' then js_lt (get tip ''top'') (get area ''top'')
      else if d = ''right'' then js_lt (get area ''right'') (get tip ''right'')
      else if d = ''bottom'' then js_lt (get area ''bottom'') (get tip ''bottom'')
      else if d = ''left'' then js_lt (get tip ''left'') (get area ''left'')
      else False)"



section \<open>Example inputs\<close>

text \<open>
  A page that is not scrolled, in a window of 1024 by 768; a tooltip content of 40 by 20;
  props that ask for the place \<open>top\<close> with no container.
\<close>

definition root_element :: element where
  "root_element =
     \<lparr>bounding = \<lparr>rect_top = Fin 0, rect_left = Fin 0, rect_right = Fin 1024,
                  rect_bottom = Fin 768, rect_width = Fin 1024, rect_height = Fin 768\<rparr>,
      scrollTop = Fin 0, scrollLeft = Fin 0, clientTop = Fin 0, clientLeft = Fin 0\<rparr>"

definition page :: env where
  "page =
     \<lparr>pageYOffset = Fin 0, pageXOffset = Fin 0, innerHeight = Fin 768, innerWidth = Fin 1024,
      documentElement = root_element, body_parentNode = root_element, body = root_element,
      getElementById = (\<lambda>_. None)\<rparr>"

definition content40x20 :: element where
  "content40x20 =
     \<lparr>bounding = \<lparr>rect_top = Fin 0, rect_left = Fin 0, rect_right = Fin 40,
                  rect_bottom = Fin 20, rect_width = Fin 40, rect_height = Fin 20\<rparr>,
      scrollTop = Fin 0, scrollLeft = Fin 0, clientTop = Fin 0, clientLeft = Fin 0\<rparr>"

definition props_top :: "jsval \<Rightarrow> props" where
  "props_top origin =
     \<lparr>prop_place = PStr ''top'', prop_auto = VUndefined, prop_within = None,
      prop_origin = origin, prop_el = Prim VUndefined\<rparr>"

definition point :: "rat \<Rightarrow> rat \<Rightarrow> jsval" where
  "point x y = Obj [(''x'', VNum (Fin x)), (''y'', VNum (Fin y))]"

definition anchor :: element where
  "anchor =
     \<lparr>bounding = \<lparr>rect_top = Fin 100, rect_left = Fin 100, rect_right = Fin 150,
                  rect_bottom = Fin 130, rect_width = Fin 50, rect_height = Fin 30\<rparr>,
      scrollTop = Fin 0, scrollLeft = Fin 0, clientTop = Fin 0, clientLeft = Fin 0\<rparr>"

text \<open>
  The priority list that the props give: the parts of a string \<open>place\<close>, trimmed, or the
  array itself; and the list that \<open>adjust\<close> tries, which with \<open>auto\<close> is completed by the
  missing directions.
\<close>

definition place_list :: "place_arg \<Rightarrow> string list" where
  "place_list pl =
     (case pl of
        PStr s \<Rightarrow> map trim (str_split CHR '','' s)
      | PArr l \<Rightarrow> l
      | PUndefined \<Rightarrow> [])"






section \<open>Objects: reading after writing\<close>

lemma get_put: "get (put ob k v) k' = (if k' = k then v else get ob k')"
  by (induction ob) (auto simp: get_def)

lemma typeof_js_add_number:
  "typeof a = ''number'' \<Longrightarrow> typeof b = ''number'' \<Longrightarrow> typeof (js_add a b) = ''number''"
  by (simp add: js_add_def)

section \<open>Strip and amend\<close>

lemma get_strip_prop:
  "get (strip_prop d p) q =
     (if q = p then (case get d p of VStr s \<Rightarrow> VNum (parseFloat (str_replace ''px'' '''' s)) | v \<Rightarrow> v)
      else get d q)"
  by (simp add: strip_prop_def get_put split: prim.splits)

lemma get_strip:
  "get (strip ob) q =
     (if q \<in> set STRIP_FOR
      then (case get ob q of VStr s \<Rightarrow> VNum (parseFloat (str_replace ''px'' '''' s)) | v \<Rightarrow> v)
      else get ob q)"
  by (simp add: strip_def STRIP_FOR_def get_strip_prop)

lemma strip_prop_id: "typeof (get d p) \<noteq> ''string'' \<Longrightarrow> strip_prop d p = d"
  by (cases "get d p") (simp_all add: strip_prop_def)

lemma strip_id:
  "\<forall>p \<in> set STRIP_FOR. typeof (get d p) \<noteq> ''string'' \<Longrightarrow> strip d = d"
  by (simp add: strip_def STRIP_FOR_def strip_prop_id)

lemma typeof_strip: "q \<in> set STRIP_FOR \<Longrightarrow> typeof (get (strip ob) q) \<noteq> ''string''"
  by (simp add: get_strip split: prim.splits)

text \<open>An object that \<open>amend\<close> has nothing to do on is returned as it is.\<close>

lemma amend_fixed:
  assumes "strip d = d"
    and "typeof (get d ''top'') = ''number''"
    and "typeof (get d ''left'') = ''number''"
    and "typeof (get d ''right'') = ''number'' \<or> typeof (get d ''width'') \<noteq> ''number''"
    and "typeof (get d ''bottom'') = ''number'' \<or> typeof (get d ''height'') \<noteq> ''number''"
  shows "amend d = d"
  using assms by (auto simp: amend_def Let_def)

lemma typeof_amend_string:
  "q \<in> set STRIP_FOR \<Longrightarrow> typeof (get (amend a) q) \<noteq> ''string''"
  using typeof_strip [of q a] typeof_strip [of "''left''" a] typeof_strip [of "''top''" a]
    typeof_strip [of "''width''" a] typeof_strip [of "''height''" a]
  by (auto simp: amend_def Let_def get_put typeof_js_add_number STRIP_FOR_def)

lemma typeof_amend_top: "typeof (get (amend a) ''top'') = ''number''"
  by (simp add: amend_def Let_def get_put)

lemma typeof_amend_left: "typeof (get (amend a) ''left'') = ''number''"
  by (simp add: amend_def Let_def get_put)

lemma typeof_amend_right:
  "typeof (get (amend a) ''right'') = ''number'' \<or> typeof (get (amend a) ''width'') \<noteq> ''number''"
  by (simp add: amend_def Let_def get_put typeof_js_add_number)

lemma typeof_amend_bottom:
  "typeof (get (amend a) ''bottom'') = ''number'' \<or> typeof (get (amend a) ''height'') \<noteq> ''number''"
  by (simp add: amend_def Let_def get_put typeof_js_add_number)

text \<open>
  Claim C7. \<open>amend\<close> is idempotent: for every object \<open>r\<close>, whatever its fields hold
  (pixel strings, numbers, other values, or nothing), amending the amended object changes
  nothing.
\<close>

theorem amend_idempotent: "amend (amend r) = amend r"
proof (rule amend_fixed)
  show "strip (amend r) = amend r"
    by (rule strip_id) (simp add: typeof_amend_string)
qed (rule typeof_amend_top typeof_amend_left typeof_amend_right typeof_amend_bottom)+

section \<open>Rectangle intersection\<close>

lemma num_max_commute: "num_max a b = num_max b a"
  by (cases a; cases b) (auto simp: num_max_def)

lemma num_min_commute: "num_min a b = num_min b a"
  by (cases a; cases b) (auto simp: num_min_def)

text \<open>
  Claim C8. Swapping the two rectangles gives the same intersection, for all objects
  (\<^verbatim>\<open>Math.max\<close> and \<^verbatim>\<open>Math.min\<close> are commutative also on \<open>NaN\<close> and the infinities); and
  the width and height can be negative: the rectangles \<open>(0, 0, 10, 10)\<close> and
  \<open>(20, 20, 10, 10)\<close> do not overlap, and their intersection has width and height \<open>- 10\<close>.
\<close>

theorem intersection_symmetric:
  "intersection a b = intersection b a
   \<and> intersection (rect 0 0 10 10) (rect 20 20 10 10) =
       [(''top'', VNum (Fin 20)), (''right'', VNum (Fin 10)), (''bottom'', VNum (Fin 10)),
        (''left'', VNum (Fin 20)), (''height'', VNum (Fin (- 10))), (''width'', VNum (Fin (- 10)))]"
proof
  show "intersection a b = intersection b a"
    by (simp add: intersection_def Let_def Math_max_def Math_min_def
        num_max_commute [of "to_number (get a ''top'')"]
        num_max_commute [of "to_number (get a ''left'')"]
        num_min_commute [of "to_number (js_add (get a ''left'') (get a ''width''))"]
        num_min_commute [of "to_number (js_add (get a ''top'') (get a ''height''))"])
  show "intersection (rect 0 0 10 10) (rect 20 20 10 10) =
       [(''top'', VNum (Fin 20)), (''right'', VNum (Fin 10)), (''bottom'', VNum (Fin 10)),
        (''left'', VNum (Fin 20)), (''height'', VNum (Fin (- 10))), (''width'', VNum (Fin (- 10)))]"
    by (simp add: intersection_def rect_def Let_def get_def Math_max_def Math_min_def
        js_add_def js_sub_def num_max_def num_min_def num_sub_def)
qed

section \<open>The rectangle invariant\<close>















text \<open>The offset of a 40 by 20 tooltip at \<open>(80, 68)\<close>, amended.\<close>

lemma amend_tip_example:
  "amend [(''width'', VNum (Fin 40)), (''height'', VNum (Fin 20)),
          (''left'', VStr ''80px''), (''top'', VStr ''68px'')]
   = [(''width'', VNum (Fin 40)), (''height'', VNum (Fin 20)),
      (''left'', VNum (Fin 80)), (''top'', VNum (Fin 68)),
      (''right'', VNum (Fin 120)), (''bottom'', VNum (Fin 88))]"
  by code_simp



section \<open>Origin or element\<close>

lemma adjust_origin:
  "adjust env content p = adjust env content (p\<lparr>prop_origin := originOrEl p\<rparr>)"
  by (simp add: adjust_def originOrEl_def Let_def)

text \<open>
  Claim C10. \<open>originOrEl\<close> gives \<open>props.origin\<close> when it is truthy and \<open>props.el\<close> when
  it is falsy; an origin that is absent, \<open>null\<close>, the empty string or \<open>0\<close> is falsy, and
  \<open>adjust\<close> then places the tooltip as if \<open>el\<close> had been given as the origin.
\<close>

theorem originOrEl_falsy:
  "(val_truthy (prop_origin p) \<longrightarrow> originOrEl p = prop_origin p)
   \<and> (\<not> val_truthy (prop_origin p) \<longrightarrow> originOrEl p = prop_el p)
   \<and> (prop_origin p \<in> set [Prim VUndefined, Prim VNull, Prim (VStr ''''), Prim (VNum (Fin 0))]
        \<longrightarrow> originOrEl p = prop_el p
          \<and> adjust env content p = adjust env content (p\<lparr>prop_origin := prop_el p\<rparr>))"
proof (intro conjI impI)
  assume "prop_origin p \<in> set [Prim VUndefined, Prim VNull, Prim (VStr ''''), Prim (VNum (Fin 0))]"
  then show e: "originOrEl p = prop_el p"
    by (auto simp: originOrEl_def)
  show "adjust env content p = adjust env content (p\<lparr>prop_origin := prop_el p\<rparr>)"
    using adjust_origin [of env content p] by (simp add: e)
qed (simp_all add: originOrEl_def)

theorem originOrEl_falsy_witness:
  "originOrEl ((props_top (Prim (VStr '''')))\<lparr>prop_el := point 100 100\<rparr>) = point 100 100
   \<and> originOrEl (props_top (Prim (VStr ''anchor''))) = Prim (VStr ''anchor'')
   \<and> adjust page (Dom content40x20) ((props_top (Prim (VStr '''')))\<lparr>prop_el := point 100 100\<rparr>)
       = adjust page (Dom content40x20) (props_top (point 100 100)\<lparr>prop_el := point 100 100\<rparr>)"
  using originOrEl_falsy [of "(props_top (Prim (VStr '''')))\<lparr>prop_el := point 100 100\<rparr>"
      page "Dom content40x20"]
    originOrEl_falsy [of "props_top (Prim (VStr ''anchor''))" page "Dom content40x20"]
  by (simp add: props_top_def)

section \<open>Direction completion\<close>

lemma count_list_distinct: "distinct xs \<Longrightarrow> x \<in> set xs \<Longrightarrow> count_list xs x = 1"
  by (induction xs) auto

text \<open>
  Claim C4, as the code has it. \<open>complete\<close> returns the input list followed by the
  canonical directions that the list lacks, in canonical order. A canonical direction that
  the list lacks occurs once in the result, and one that the list has occurs as often as in
  the list: the result has each of the four exactly once when the list repeats none of
  them, and \<open>complete\<close> introduces no duplicate of its own.
\<close>

theorem complete_appends_missing:
  "complete_dirs (PArr xs) = Inr (xs @ filter (\<lambda>d. d \<notin> set xs) DIRS)
   \<and> (\<forall>d \<in> set DIRS.
         count_list (xs @ filter (\<lambda>d. d \<notin> set xs) DIRS) d
           = (if d \<in> set xs then count_list xs d else 1))
   \<and> (distinct xs \<longrightarrow>
         distinct (xs @ filter (\<lambda>d. d \<notin> set xs) DIRS)
         \<and> (\<forall>d \<in> set DIRS. count_list (xs @ filter (\<lambda>d. d \<notin> set xs) DIRS) d = 1))"
proof (intro conjI impI)
  show "complete_dirs (PArr xs) = Inr (xs @ filter (\<lambda>d. d \<notin> set xs) DIRS)"
    by (simp add: complete_dirs_def spread_def and_then_def)
  show c: "\<forall>d \<in> set DIRS.
         count_list (xs @ filter (\<lambda>d. d \<notin> set xs) DIRS) d
           = (if d \<in> set xs then count_list xs d else 1)"
    by (auto simp: DIRS_def count_list_0_iff)
  assume d: "distinct xs"
  then show "distinct (xs @ filter (\<lambda>d. d \<notin> set xs) DIRS)"
    by (auto simp: DIRS_def)
  show "\<forall>d \<in> set DIRS. count_list (xs @ filter (\<lambda>d. d \<notin> set xs) DIRS) d = 1"
    using c d by (simp add: count_list_distinct)
qed

text \<open>
  The claim as it is written fails on a list that repeats a direction: the result of
  \<open>complete\<close> on \<open>[top, top]\<close> has \<open>top\<close> twice.
\<close>

theorem complete_duplicate_counterexample:
  "complete_dirs (PArr [''top'', ''top'']) = Inr [''top'', ''top'', ''right'', ''bottom'', ''left'']
   \<and> count_list [''top'', ''top'', ''right'', ''bottom'', ''left''] ''top'' = 2"
  by (simp add: complete_dirs_def spread_def and_then_def DIRS_def)

theorem complete_appends_missing_witness:
  "complete_dirs (PArr [''left'', ''top'']) = Inr [''left'', ''top'', ''right'', ''bottom'']
   \<and> distinct [''left'', ''top'']
   \<and> distinct [''left'', ''top'', ''right'', ''bottom'']
   \<and> count_list [''left'', ''top'', ''right'', ''bottom''] ''top'' = 1
   \<and> count_list [''left'', ''top'', ''right'', ''bottom''] ''right'' = 1"
  using complete_appends_missing [of "[''left'', ''top'']"]
  by (simp add: DIRS_def)

section \<open>Position of no element\<close>

text \<open>
  Claim C5. \<open>position(null)\<close> does not raise: it returns a rectangle that holds no
  measurement, \<open>top\<close>, \<open>left\<close>, \<open>right\<close> and \<open>bottom\<close> being \<open>NaN\<close> and \<open>width\<close> and
  \<open>height\<close> being \<open>undefined\<close>, whatever the page offsets are; and so it does for an
  element that is \<open>undefined\<close>.
\<close>

theorem position_null:
  "position env (Prim VNull) =
     Inr [(''top'', VNum NaN), (''left'', VNum NaN), (''right'', VNum NaN),
          (''bottom'', VNum NaN), (''width'', VUndefined), (''height'', VUndefined)]
   \<and> position env (Prim VUndefined) = position env (Prim VNull)"
  by (simp add: position_def and_then_def Let_def get_def js_add_def)

section \<open>Placement\<close>

lemma and_then_Inr: "and_then (Inr v) f = f v"
  by (simp add: and_then_def)



lemma position_Dom: "\<exists>p. position env (Dom e) = Inr p"
  by (simp add: position_def and_then_Inr Let_def)


lemma member_defined:
  "origin \<noteq> Prim VUndefined \<Longrightarrow> origin \<noteq> Prim VNull \<Longrightarrow> \<exists>v. member origin k = Inr v"
  by (cases "(origin, k)" rule: member.cases) simp_all






lemma resolve_point:
  "resolve_origin page (point 100 100) =
     Inr [(''top'', VNum (Fin 100)), (''right'', VNum (Fin 100)), (''bottom'', VNum (Fin 100)),
          (''left'', VNum (Fin 100)), (''width'', VNum (Fin 0)), (''height'', VNum (Fin 0))]"
  by code_simp







section \<open>Overflow detection\<close>

lemma overDirs_filter:
  assumes "reference_area env el = Inr area"
  shows "overDirs env tip el = Inr (filter (exceeds (amend tip) area) DIRS)"
proof (cases el)
  case (Prim p)
  have f: "(truthy p \<and> typeof p = ''object'') = False"
    by (cases p) simp_all
  from assms Prim show ?thesis
    by (simp add: f overDirs_def reference_area_def and_then_Inr Let_def DIRS_def exceeds_def)
next
  case (Dom e)
  with assms obtain p where p: "position env (Dom e) = Inr p"
    and area: "area = intersection (amend (contentArea env)) p"
    by (cases "position env (Dom e)") (auto simp: reference_area_def and_then_def)
  show ?thesis
    by (simp add: overDirs_def Dom p area and_then_Inr Let_def DIRS_def exceeds_def)
next
  case (Obj ob)
  with assms show ?thesis by (simp add: reference_area_def)
qed

lemma viewport:
  "amend (contentArea env) =
     [(''top'', get (scrollOffset env) ''top''), (''left'', get (scrollOffset env) ''left''),
      (''height'', VNum (innerHeight env)), (''width'', VNum (innerWidth env)),
      (''right'', js_add (get (scrollOffset env) ''left'') (VNum (innerWidth env))),
      (''bottom'', js_add (get (scrollOffset env) ''top'') (VNum (innerHeight env)))]"
  by (simp add: amend_def contentArea_def scrollOffset_def strip_def strip_prop_def STRIP_FOR_def
      Let_def get_def)

lemma reference_area_page:
  "reference_area page (Prim VUndefined) =
     Inr [(''top'', VNum (Fin 0)), (''left'', VNum (Fin 0)), (''height'', VNum (Fin 768)),
          (''width'', VNum (Fin 1024)), (''right'', VNum (Fin 1024)), (''bottom'', VNum (Fin 768))]"
  by code_simp

lemma reference_area_anchor:
  "reference_area page (Dom anchor) =
     Inr [(''top'', VNum (Fin 100)), (''right'', VNum (Fin 150)), (''bottom'', VNum (Fin 130)),
          (''left'', VNum (Fin 100)), (''height'', VNum (Fin 30)), (''width'', VNum (Fin 50))]"
  by code_simp

text \<open>
  Claim C3. \<open>overDirs\<close> returns, in the order top, right, bottom, left, exactly the
  directions along which the amended tip strictly exceeds the edge of the reference area,
  and so the empty list for a tip inside the area. The reference area is the viewport
  (scroll offset, inner dimensions of the window, and the right and bottom edges that
  \<open>amend\<close> derives) when no container is given, and the intersection of the viewport with
  the position of the container when the container is an element.
\<close>

theorem overDirs_exceeding:
  "(reference_area env el = Inr area \<longrightarrow>
      overDirs env tip el = Inr (filter (exceeds (amend tip) area) DIRS))
   \<and> (reference_area env el = Inr area \<and> (\<forall>d \<in> set DIRS. \<not> exceeds (amend tip) area d) \<longrightarrow>
      overDirs env tip el = Inr [])
   \<and> reference_area env (Prim VUndefined) = Inr (amend (contentArea env))
   \<and> amend (contentArea env) =
       [(''top'', get (scrollOffset env) ''top''), (''left'', get (scrollOffset env) ''left''),
        (''height'', VNum (innerHeight env)), (''width'', VNum (innerWidth env)),
        (''right'', js_add (get (scrollOffset env) ''left'') (VNum (innerWidth env))),
        (''bottom'', js_add (get (scrollOffset env) ''top'') (VNum (innerHeight env)))]
   \<and> (\<exists>p. position env (Dom e) = Inr p
          \<and> reference_area env (Dom e) = Inr (intersection (amend (contentArea env)) p))"
proof (intro conjI impI)
  assume "reference_area env el = Inr area"
  then show "overDirs env tip el = Inr (filter (exceeds (amend tip) area) DIRS)"
    by (rule overDirs_filter)
next
  assume "reference_area env el = Inr area \<and> (\<forall>d \<in> set DIRS. \<not> exceeds (amend tip) area d)"
  then show "overDirs env tip el = Inr []"
    using overDirs_filter [of env el area tip] by simp
next
  show "reference_area env (Prim VUndefined) = Inr (amend (contentArea env))"
    by (simp add: reference_area_def)
next
  show "amend (contentArea env) =
       [(''top'', get (scrollOffset env) ''top''), (''left'', get (scrollOffset env) ''left''),
        (''height'', VNum (innerHeight env)), (''width'', VNum (innerWidth env)),
        (''right'', js_add (get (scrollOffset env) ''left'') (VNum (innerWidth env))),
        (''bottom'', js_add (get (scrollOffset env) ''top'') (VNum (innerHeight env)))]"
    by (rule viewport)
next
  obtain p where "position env (Dom e) = Inr p"
    using position_Dom by blast
  then show "\<exists>p. position env (Dom e) = Inr p
          \<and> reference_area env (Dom e) = Inr (intersection (amend (contentArea env)) p)"
    by (simp add: reference_area_def and_then_Inr)
qed

theorem overDirs_exceeding_witness:
  "reference_area page (Prim VUndefined) =
     Inr [(''top'', VNum (Fin 0)), (''left'', VNum (Fin 0)), (''height'', VNum (Fin 768)),
          (''width'', VNum (Fin 1024)), (''right'', VNum (Fin 1024)), (''bottom'', VNum (Fin 768))]
   \<and> overDirs page [(''width'', VNum (Fin 40)), (''height'', VNum (Fin 20)),
                      (''left'', VStr ''80px''), (''top'', VStr ''68px'')] (Prim VUndefined) = Inr []
   \<and> reference_area page (Dom anchor) =
     Inr [(''top'', VNum (Fin 100)), (''right'', VNum (Fin 150)), (''bottom'', VNum (Fin 130)),
          (''left'', VNum (Fin 100)), (''height'', VNum (Fin 30)), (''width'', VNum (Fin 50))]
   \<and> overDirs page [(''width'', VNum (Fin 40)), (''height'', VNum (Fin 20)),
                      (''left'', VStr ''80px''), (''top'', VStr ''68px'')] (Dom anchor)
       = Inr [''top'', ''left'']"
  using overDirs_exceeding [of page "Prim VUndefined"
      "[(''top'', VNum (Fin 0)), (''left'', VNum (Fin 0)), (''height'', VNum (Fin 768)),
        (''width'', VNum (Fin 1024)), (''right'', VNum (Fin 1024)), (''bottom'', VNum (Fin 768))]"
      "[(''width'', VNum (Fin 40)), (''height'', VNum (Fin 20)),
        (''left'', VStr ''80px''), (''top'', VStr ''68px'')]" anchor]
    overDirs_exceeding [of page "Dom anchor"
      "[(''top'', VNum (Fin 100)), (''right'', VNum (Fin 150)), (''bottom'', VNum (Fin 130)),
        (''left'', VNum (Fin 100)), (''height'', VNum (Fin 30)), (''width'', VNum (Fin 50))]"
      "[(''width'', VNum (Fin 40)), (''height'', VNum (Fin 20)),
        (''left'', VStr ''80px''), (''top'', VStr ''68px'')]" anchor]
  by (simp add: reference_area_page reference_area_anchor amend_tip_example exceeds_def DIRS_def
      get_def js_lt_def)

section \<open>The fallback driver\<close>




lemma spread_place_list:
  "pl \<noteq> PUndefined \<Longrightarrow>
     spread (case pl of PStr s \<Rightarrow> PArr (map trim (str_split CHR '','' s)) | p \<Rightarrow> p) = Inr (place_list pl)"
  by (cases pl) (simp_all add: spread_def place_list_def)









section \<open>End to end\<close>













end
